theory Spec2Isabelle
  imports Complex_Main "HOL-Library.Word"
begin

unbundle bit_operations_syntax

section \<open>Ultrasonic distance meter on FreeRTOS: the model of src/main/main.c\<close>

text \<open>
  The program has one interrupt handler (\<open>echo_pin_callback\<close>) and three tasks
  (\<open>trigger_task\<close>, \<open>echo_task\<close>, \<open>oled_task\<close>) that share two queues and a binary
  semaphore. Each handler and each loop body is a function on the shared objects and
  the task's local variables.

  Conventions of the model:
  \<^item> \<open>uint64_t\<close> is \<open>64 word\<close>, \<open>uint32_t\<close> is \<open>32 word\<close>; subtraction wraps.
  \<^item> A \<open>double\<close> is the real number it denotes. Rounding, NaN and the infinities are
    not represented.
  \<^item> A value that C leaves indeterminate is \<open>None\<close>; a function that reads one, or
    that converts a \<open>double\<close> outside the range of \<open>int\<close>, returns \<open>None\<close>.
  \<^item> A wait with a timeout is evaluated on the state of the waited object at the
    moment the wait ends (an item is there, or the timeout has run out).
\<close>

subsection \<open>FreeRTOS queues and binary semaphores\<close>

text \<open>
  A FreeRTOS queue holds at most \<open>uxLength\<close> items in FIFO order. A binary semaphore
  is a queue of length one whose items carry no data (\<open>semphr.h\<close> defines the
  semaphore calls as queue calls).
\<close>

record 'a Queue_t =
  uxLength :: nat
  pcItems :: "'a list"

definition xQueueCreate :: "nat \<Rightarrow> 'a Queue_t" where
  "xQueueCreate n = \<lparr>uxLength = n, pcItems = []\<rparr>"

text \<open>\<open>xQueueSend\<close> with block time 0: a full queue refuses the item.\<close>

definition xQueueSend :: "'a Queue_t \<Rightarrow> 'a \<Rightarrow> bool \<times> 'a Queue_t" where
  "xQueueSend q x =
     (if length (pcItems q) < uxLength q then (True, q\<lparr>pcItems := pcItems q @ [x]\<rparr>)
      else (False, q))"

definition xQueueSendFromISR :: "'a Queue_t \<Rightarrow> 'a \<Rightarrow> bool \<times> 'a Queue_t" where
  "xQueueSendFromISR q x = xQueueSend q x"

text \<open>
  \<open>xQueueReceive\<close>, on the queue as it is when the wait ends: the oldest item, or
  nothing when the queue stayed empty for the whole block time.
\<close>

definition xQueueReceive :: "'a Queue_t \<Rightarrow> 'a option \<times> 'a Queue_t" where
  "xQueueReceive q =
     (case pcItems q of
        [] \<Rightarrow> (None, q)
      | x # r \<Rightarrow> (Some x, q\<lparr>pcItems := r\<rparr>))"

definition xSemaphoreCreateBinary :: "unit Queue_t" where
  "xSemaphoreCreateBinary = xQueueCreate 1"

definition xSemaphoreGive :: "unit Queue_t \<Rightarrow> bool \<times> unit Queue_t" where
  "xSemaphoreGive s = xQueueSend s ()"

definition xSemaphoreTake :: "unit Queue_t \<Rightarrow> bool \<times> unit Queue_t" where
  "xSemaphoreTake s = (case xQueueReceive s of (r, s') \<Rightarrow> (r \<noteq> None, s'))"

text \<open>
  \<open>pdMS_TO_TICKS\<close> of FreeRTOS, in \<open>TickType_t\<close> (32 bits) arithmetic. The tick rate
  \<open>configTICK_RATE_HZ\<close> comes from a configuration header and is a parameter.
\<close>

definition pdMS_TO_TICKS :: "nat \<Rightarrow> nat \<Rightarrow> nat" where
  "pdMS_TO_TICKS configTICK_RATE_HZ ms = ((ms * configTICK_RATE_HZ) mod 2 ^ 32) div 1000"

subsection \<open>Globals and \<open>main\<close>\<close>

record echo_event_t =
  is_rising :: "bool option"
  timestamp :: "64 word"

record rtos =
  xQueueTime :: "echo_event_t Queue_t"
  xQueueDistance :: "real Queue_t"
  xSemaphoreTrigger :: "unit Queue_t"

definition TRIG_PIN :: nat where
  "TRIG_PIN = 5"

definition ECHO_PIN :: nat where
  "ECHO_PIN = 16"

text \<open>The objects \<open>main\<close> creates before it starts the scheduler.\<close>

definition main_init :: rtos where
  "main_init =
     \<lparr>xQueueTime = xQueueCreate 10,
      xQueueDistance = xQueueCreate 10,
      xSemaphoreTrigger = xSemaphoreCreateBinary\<rparr>"

subsection \<open>The interrupt handler\<close>

text \<open>The event masks of the Pico SDK (\<open>hardware/gpio.h\<close>).\<close>

definition GPIO_IRQ_EDGE_FALL :: "32 word" where
  "GPIO_IRQ_EDGE_FALL = 0x4"

definition GPIO_IRQ_EDGE_RISE :: "32 word" where
  "GPIO_IRQ_EDGE_RISE = 0x8"

text \<open>
  \<open>now\<close> is the value of \<open>to_us_since_boot(get_absolute_time())\<close> at the interrupt.
  \<open>evt.is_rising\<close> is written in two of the three branches only.
\<close>

definition echo_pin_callback :: "64 word \<Rightarrow> nat \<Rightarrow> 32 word \<Rightarrow> rtos \<Rightarrow> rtos" where
  "echo_pin_callback now gpio events g =
     (let evt = \<lparr>is_rising = None, timestamp = now\<rparr>;
          evt = (if events AND GPIO_IRQ_EDGE_RISE \<noteq> 0 then evt\<lparr>is_rising := Some True\<rparr>
                 else if events AND GPIO_IRQ_EDGE_FALL \<noteq> 0 then evt\<lparr>is_rising := Some False\<rparr>
                 else evt)
      in g\<lparr>xQueueTime := snd (xQueueSendFromISR (xQueueTime g) evt)\<rparr>)"

subsection \<open>The trigger task\<close>

text \<open>
  One pass of the loop of \<open>trigger_task\<close>: the calls it makes, in order, and the
  semaphore after \<open>xSemaphoreGive\<close>. \<open>VTaskDelay n\<close> suspends the task for \<open>n\<close> ticks.
\<close>

datatype trigger_call =
  Gpio_put nat bool
| VTaskDelay nat
| XSemaphoreGive

definition trigger_task_iter :: "nat \<Rightarrow> rtos \<Rightarrow> trigger_call list \<times> rtos" where
  "trigger_task_iter configTICK_RATE_HZ g =
     ([Gpio_put TRIG_PIN True,
       VTaskDelay (pdMS_TO_TICKS configTICK_RATE_HZ 1000),
       Gpio_put TRIG_PIN False,
       XSemaphoreGive,
       VTaskDelay (pdMS_TO_TICKS configTICK_RATE_HZ 1000)],
      g\<lparr>xSemaphoreTrigger := snd (xSemaphoreGive (xSemaphoreTrigger g))\<rparr>)"

text \<open>
  What a trace of calls means on the pin: the ticks spent with the trigger pin high,
  and the ticks of the whole trace. \<open>lvl\<close> is the level of the pin before the trace.
\<close>

fun high_ticks :: "bool \<Rightarrow> trigger_call list \<Rightarrow> nat" where
  "high_ticks lvl [] = 0"
| "high_ticks lvl (Gpio_put p v # cs) = high_ticks (if p = TRIG_PIN then v else lvl) cs"
| "high_ticks lvl (VTaskDelay n # cs) = (if lvl then n else 0) + high_ticks lvl cs"
| "high_ticks lvl (XSemaphoreGive # cs) = high_ticks lvl cs"

fun total_ticks :: "trigger_call list \<Rightarrow> nat" where
  "total_ticks [] = 0"
| "total_ticks (VTaskDelay n # cs) = n + total_ticks cs"
| "total_ticks (c # cs) = total_ticks cs"

subsection \<open>The echo task\<close>

record echo_locals =
  t_rising :: "64 word"
  have_rising :: bool

definition echo_task_init :: echo_locals where
  "echo_task_init = \<lparr>t_rising = 0, have_rising = False\<rparr>"

text \<open>
  \<open>absolute_time_diff_us\<close> of the Pico SDK returns \<open>to - from\<close> as \<open>int64_t\<close>; the
  task stores it in a \<open>uint64_t\<close>, so the value is the difference modulo \<open>2 ^ 64\<close>.
\<close>

definition absolute_time_diff_us :: "64 word \<Rightarrow> 64 word \<Rightarrow> 64 word" where
  "absolute_time_diff_us from to = to - from"

text \<open>
  The body of the loop of \<open>echo_task\<close> for one received event: the new locals and the
  distance handed to \<open>xQueueSend\<close>, if any.
\<close>

definition echo_task_body ::
  "echo_locals \<Rightarrow> echo_event_t \<Rightarrow> (echo_locals \<times> real option) option" where
  "echo_task_body l evt =
     (case is_rising evt of
        None \<Rightarrow> None
      | Some True \<Rightarrow> Some (l\<lparr>t_rising := timestamp evt, have_rising := True\<rparr>, None)
      | Some False \<Rightarrow>
          (if have_rising l then
             (let t_falling = timestamp evt;
                  l' = l\<lparr>have_rising := False\<rparr>;
                  diff = absolute_time_diff_us (t_rising l) t_falling;
                  distance = (real (unat diff) * 0.0343) / 2.0
              in Some (l', Some distance))
           else Some (l, None)))"

text \<open>
  The loop of \<open>echo_task\<close> on the events it receives, in order: the final locals and
  the distances handed to \<open>xQueueSend\<close>, oldest first.
\<close>

fun echo_task_run ::
  "echo_locals \<Rightarrow> echo_event_t list \<Rightarrow> (echo_locals \<times> real list) option" where
  "echo_task_run l [] = Some (l, [])"
| "echo_task_run l (evt # evts) =
     (case echo_task_body l evt of
        None \<Rightarrow> None
      | Some (l', out) \<Rightarrow>
          (case echo_task_run l' evts of
             None \<Rightarrow> None
           | Some (l'', outs) \<Rightarrow>
               Some (l'', (case out of None \<Rightarrow> [] | Some d \<Rightarrow> [d]) @ outs)))"

text \<open>
  One pass of the loop on the shared queues. \<open>xQueueReceive\<close> waits with
  \<open>portMAX_DELAY\<close>: on an empty queue the task stays blocked and nothing changes.
\<close>

definition echo_task_iter :: "echo_locals \<times> rtos \<Rightarrow> (echo_locals \<times> rtos) option" where
  "echo_task_iter lg =
     (case lg of (l, g) \<Rightarrow>
        (case xQueueReceive (xQueueTime g) of
           (None, qt) \<Rightarrow> Some (l, g)
         | (Some evt, qt) \<Rightarrow>
             (case echo_task_body l evt of
                None \<Rightarrow> None
              | Some (l', None) \<Rightarrow> Some (l', g\<lparr>xQueueTime := qt\<rparr>)
              | Some (l', Some distance) \<Rightarrow>
                  Some (l', g\<lparr>xQueueTime := qt,
                              xQueueDistance := snd (xQueueSend (xQueueDistance g) distance)\<rparr>))))"

subsection \<open>The display task\<close>

text \<open>
  The calls to the display library. The text drawn is a literal or the result of
  \<open>snprintf(buf, sizeof(buf), "Dist: %.2f cm", distance)\<close>, kept as its argument.
\<close>

datatype gfx_text =
  Literal string
| Snprintf_dist real

datatype gfx_call =
  Gfx_clear_buffer
| Gfx_draw_string int int int gfx_text
| Gfx_draw_line int int int int
| Gfx_show

text \<open>The width given to \<open>gfx_init(&disp, 128, 32)\<close>.\<close>

definition disp_width :: int where
  "disp_width = 128"

text \<open>
  The cast \<open>(int)distance\<close>: truncation towards zero, undefined when the result is
  not an \<open>int\<close> (32 bits).
\<close>

definition trunc_real :: "real \<Rightarrow> int" where
  "trunc_real d = (if 0 \<le> d then \<lfloor>d\<rfloor> else \<lceil>d\<rceil>)"

definition double_to_int :: "real \<Rightarrow> int option" where
  "double_to_int d =
     (if - 2147483648 \<le> trunc_real d \<and> trunc_real d \<le> 2147483647
      then Some (trunc_real d) else None)"

text \<open>The clamp of the bar, as the source writes it.\<close>

definition clamp_bar :: "int \<Rightarrow> int" where
  "clamp_bar bar_length = (if bar_length > 400 then 128 else bar_length)"

text \<open>
  What \<open>oled_task\<close> draws once the semaphore is taken, from the result of
  \<open>xQueueReceive(xQueueDistance, &distance, pdMS_TO_TICKS(50))\<close>.
\<close>

definition oled_render :: "real option \<Rightarrow> gfx_call list option" where
  "oled_render received =
     (case received of
        Some distance \<Rightarrow>
          (if distance > 400 then
             Some [Gfx_clear_buffer,
                   Gfx_draw_string 0 0 1 (Literal ''Falha ao medir Distancia''),
                   Gfx_show]
           else
             (case double_to_int distance of
                None \<Rightarrow> None
              | Some bar_length \<Rightarrow>
                  Some [Gfx_clear_buffer,
                        Gfx_draw_string 0 0 1 (Snprintf_dist distance),
                        Gfx_draw_line 0 16 (clamp_bar bar_length) 16,
                        Gfx_show]))
      | None \<Rightarrow>
          Some [Gfx_clear_buffer,
                Gfx_draw_string 0 0 1 (Literal ''Sensor Falhou!''),
                Gfx_show])"

text \<open>
  One pass of the loop of \<open>oled_task\<close>: the draw calls and the shared objects after
  it. When the semaphore does not come within 100 ms nothing is drawn.
\<close>

definition oled_task_iter :: "rtos \<Rightarrow> (gfx_call list \<times> rtos) option" where
  "oled_task_iter g =
     (case xSemaphoreTake (xSemaphoreTrigger g) of
        (True, sem) \<Rightarrow>
          (case xQueueReceive (xQueueDistance g) of (received, qd) \<Rightarrow>
             (case oled_render received of
                None \<Rightarrow> None
              | Some calls \<Rightarrow>
                  Some (calls, g\<lparr>xSemaphoreTrigger := sem, xQueueDistance := qd\<rparr>)))
      | (False, sem) \<Rightarrow> Some ([], g))"

subsection \<open>Reference functions for the properties\<close>

text \<open>
  The samples a sequence of events should give, read off the sequence alone: one sample
  for each rising event that is directly followed by a falling event, computed from the
  difference of the two timestamps modulo \<open>2 ^ 64\<close>.
\<close>

fun paired_samples :: "echo_event_t list \<Rightarrow> real list" where
  "paired_samples (e1 # e2 # es) =
     (if is_rising e1 = Some True \<and> is_rising e2 = Some False
      then [(real (unat (timestamp e2 - timestamp e1)) * 0.0343) / 2] else [])
     @ paired_samples (e2 # es)"
| "paired_samples es = []"

text \<open>The locals of \<open>echo_task\<close>, seen as the last edge that matters.\<close>

definition pending_edge :: "echo_locals \<Rightarrow> echo_event_t" where
  "pending_edge l = \<lparr>is_rising = Some (have_rising l), timestamp = t_rising l\<rparr>"

text \<open>
  Two cycles of the whole system at a tick rate of 1000 Hz. Cycle 1: the trigger task
  signals, the display task takes the signal and finds no sample in time. Then the echo
  arrives late (rising edge at 2000000, falling edge at 2001458 microseconds) and the
  echo task processes both events. Cycle 2: the trigger task signals again and no edge
  follows; the display task runs. The result is what the display task drew in each of
  the two cycles.
\<close>

definition stale_sample_scenario :: "(gfx_call list \<times> gfx_call list) option" where
  "stale_sample_scenario =
     (let g1 = snd (trigger_task_iter 1000 main_init) in
      case oled_task_iter g1 of
        None \<Rightarrow> None
      | Some (calls1, g2) \<Rightarrow>
          (let g3 = echo_pin_callback 2000000 ECHO_PIN GPIO_IRQ_EDGE_RISE g2;
               g4 = echo_pin_callback 2001458 ECHO_PIN GPIO_IRQ_EDGE_FALL g3 in
           case echo_task_iter (echo_task_init, g4) of
             None \<Rightarrow> None
           | Some lg5 \<Rightarrow>
               (case echo_task_iter lg5 of
                  None \<Rightarrow> None
                | Some (l6, g6) \<Rightarrow>
                    (let g7 = snd (trigger_task_iter 1000 g6) in
                     case oled_task_iter g7 of
                       None \<Rightarrow> None
                     | Some (calls2, g8) \<Rightarrow> Some (calls1, calls2)))))"

section \<open>Properties\<close>

subsection \<open>The echo task\<close>

lemma echo_task_run_paired:
  assumes "\<forall>e \<in> set evts. is_rising e \<noteq> None"
  shows "\<exists>l'. echo_task_run l evts = Some (l', paired_samples (pending_edge l # evts))
          \<and> have_rising l' = (if evts = [] then have_rising l else is_rising (last evts) = Some True)"
  using assms
proof (induction evts arbitrary: l)
  case Nil
  then show ?case by simp
next
  case (Cons e es)
  from Cons.prems obtain b where b: "is_rising e = Some b" by auto
  from Cons.prems have rest: "\<forall>x \<in> set es. is_rising x \<noteq> None" by simp
  show ?case
  proof (cases b)
    case True
    let ?l = "l\<lparr>t_rising := timestamp e, have_rising := True\<rparr>"
    have step: "echo_task_body l e = Some (?l, None)"
      using b True by (simp add: echo_task_body_def)
    have pe: "paired_samples (pending_edge ?l # es) = paired_samples (e # es)"
      using b True by (cases es) (simp_all add: pending_edge_def)
    from Cons.IH [OF rest, of ?l] obtain l' where
      run: "echo_task_run ?l es = Some (l', paired_samples (pending_edge ?l # es))"
      and fin: "have_rising l' = (if es = [] then have_rising ?l else is_rising (last es) = Some True)"
      by blast
    show ?thesis using step run fin pe b True by (simp add: pending_edge_def)
  next
    case False
    show ?thesis
    proof (cases "have_rising l")
      case armed: True
      let ?l = "l\<lparr>have_rising := False\<rparr>"
      let ?d = "(real (unat (timestamp e - t_rising l)) * 0.0343) / 2"
      have step: "echo_task_body l e = Some (?l, Some ?d)"
        using b False armed by (simp add: echo_task_body_def absolute_time_diff_us_def Let_def)
      have pe: "paired_samples (pending_edge ?l # es) = paired_samples (e # es)"
        using b False by (cases es) (simp_all add: pending_edge_def)
      from Cons.IH [OF rest, of ?l] obtain l' where
        run: "echo_task_run ?l es = Some (l', paired_samples (pending_edge ?l # es))"
        and fin: "have_rising l' = (if es = [] then have_rising ?l else is_rising (last es) = Some True)"
        by blast
      show ?thesis using step run fin pe b False armed by (simp add: pending_edge_def)
    next
      case idle: False
      have step: "echo_task_body l e = Some (l, None)"
        using b False idle by (simp add: echo_task_body_def)
      have pe: "paired_samples (pending_edge l # es) = paired_samples (e # es)"
        using b False idle by (cases es) (simp_all add: pending_edge_def)
      from Cons.IH [OF rest, of l] obtain l' where
        run: "echo_task_run l es = Some (l', paired_samples (pending_edge l # es))"
        and fin: "have_rising l' = (if es = [] then have_rising l else is_rising (last es) = Some True)"
        by blast
      show ?thesis using step run fin pe b False idle by (simp add: pending_edge_def)
    qed
  qed
qed

lemma paired_samples_idle:
  "paired_samples (pending_edge echo_task_init # evts) = paired_samples evts"
  by (cases evts) (simp_all add: pending_edge_def echo_task_init_def)

text \<open>
  C3, as stated, fails: a rising edge stamped 1058 followed by a falling edge stamped
  1000 has a negative elapsed time, and the task still publishes a sample, computed from
  the difference modulo \<open>2 ^ 64\<close> (18446744073709551558 microseconds).
\<close>

theorem echo_task_publishes_on_negative_elapsed:
  "(1000 :: 64 word) < 1058
   \<and> echo_task_run echo_task_init
        [\<lparr>is_rising = Some True, timestamp = 1058\<rparr>,
         \<lparr>is_rising = Some False, timestamp = 1000\<rparr>]
      = Some (\<lparr>t_rising = 1058, have_rising = False\<rparr>, [316361660864118809.2197])"
  by (simp add: echo_task_body_def echo_task_init_def absolute_time_diff_us_def Let_def)

text \<open>
  C3, amended: for every sequence of events with a determinate polarity, the task
  started in Idle publishes exactly one sample for each rising event that is directly
  followed by a falling event (so of several rising events in a row the last one
  counts), whatever the order of the two timestamps: the elapsed time is their
  difference modulo \<open>2 ^ 64\<close>. After the sequence the task is Armed exactly when the last
  event was a rising one, so every falling event leaves it in Idle.
\<close>

theorem echo_task_run_paired_samples:
  assumes "\<forall>e \<in> set evts. is_rising e \<noteq> None"
  shows "map_option snd (echo_task_run echo_task_init evts) = Some (paired_samples evts)
       \<and> map_option (have_rising \<circ> fst) (echo_task_run echo_task_init evts)
           = Some (evts \<noteq> [] \<and> is_rising (last evts) = Some True)"
proof -
  have idle: "\<not> have_rising echo_task_init"
    by (simp add: echo_task_init_def)
  from echo_task_run_paired [OF assms, of echo_task_init] obtain l' where
    run: "echo_task_run echo_task_init evts
            = Some (l', paired_samples (pending_edge echo_task_init # evts))"
    and fin: "have_rising l'
            = (if evts = [] then have_rising echo_task_init
               else is_rising (last evts) = Some True)"
    by blast
  from run have "echo_task_run echo_task_init evts = Some (l', paired_samples evts)"
    by (simp only: paired_samples_idle)
  moreover from fin idle
  have "have_rising l' = (evts \<noteq> [] \<and> is_rising (last evts) = Some True)"
    by simp
  ultimately show ?thesis by simp
qed

theorem echo_task_run_paired_samples_witness:
  "map_option snd (echo_task_run echo_task_init
     [\<lparr>is_rising = Some False, timestamp = 900\<rparr>,
      \<lparr>is_rising = Some True, timestamp = 950\<rparr>,
      \<lparr>is_rising = Some True, timestamp = 1000\<rparr>,
      \<lparr>is_rising = Some False, timestamp = 1058\<rparr>,
      \<lparr>is_rising = Some False, timestamp = 1100\<rparr>]) = Some [0.9947]"
proof -
  let ?evts = "[\<lparr>is_rising = Some False, timestamp = 900\<rparr>,
      \<lparr>is_rising = Some True, timestamp = 950\<rparr>,
      \<lparr>is_rising = Some True, timestamp = 1000\<rparr>,
      \<lparr>is_rising = Some False, timestamp = 1058\<rparr>,
      \<lparr>is_rising = Some False, timestamp = (1100 :: 64 word)\<rparr>]"
  have wf: "\<forall>e \<in> set ?evts. is_rising e \<noteq> None"
    by auto
  have ps: "paired_samples ?evts = [0.9947]"
    by simp
  from echo_task_run_paired_samples [OF wf]
  have "map_option snd (echo_task_run echo_task_init ?evts) = Some (paired_samples ?evts)"
    by (rule conjunct1)
  then show ?thesis
    by (simp only: ps)
qed

text \<open>
  C4: for a falling event that arrives in Armed with a timestamp not below the stored
  rising timestamp, the published distance is \<open>(falling - rising) * 0.0343 / 2\<close>, the
  timestamps read as unsigned numbers, and the task returns to Idle. Doubles are real
  numbers here, so the equation is exact.
\<close>

theorem echo_task_distance_formula:
  assumes "have_rising l" and "is_rising evt = Some False" and "t_rising l \<le> timestamp evt"
  shows "echo_task_body l evt =
     Some (l\<lparr>have_rising := False\<rparr>,
           Some ((real (unat (timestamp evt)) - real (unat (t_rising l))) * 0.0343 / 2))"
proof -
  have le: "unat (t_rising l) \<le> unat (timestamp evt)"
    using assms(3) by (simp add: word_le_nat_alt)
  have "unat (timestamp evt - t_rising l) = unat (timestamp evt) - unat (t_rising l)"
    using assms(3) by (simp add: unat_sub)
  with le have eq: "real (unat (timestamp evt - t_rising l))
      = real (unat (timestamp evt)) - real (unat (t_rising l))"
    by (metis of_nat_diff)
  have "echo_task_body l evt =
     Some (l\<lparr>have_rising := False\<rparr>,
           Some (real (unat (timestamp evt - t_rising l)) * 0.0343 / 2))"
    using assms(1,2) by (simp add: echo_task_body_def absolute_time_diff_us_def Let_def)
  then show ?thesis by (simp only: eq)
qed

text \<open>Rising at 1000, falling at 1058: 58 microseconds, 0.9947 cm.\<close>

theorem echo_task_distance_formula_witness:
  "echo_task_body \<lparr>t_rising = 1000, have_rising = True\<rparr>
                  \<lparr>is_rising = Some False, timestamp = 1058\<rparr>
     = Some (\<lparr>t_rising = 1000, have_rising = False\<rparr>, Some 0.9947)
   \<and> \<bar>0.9947 - 0.994\<bar> < (0.001 :: real)"
  using echo_task_distance_formula
          [of "\<lparr>t_rising = 1000, have_rising = True\<rparr>"
              "\<lparr>is_rising = Some False, timestamp = 1058\<rparr>"]
  by simp

text \<open>
  C6: the task has two states, \<open>have_rising = False\<close> (Idle, the initial state) and
  \<open>have_rising = True\<close> (Armed). A rising event in Idle stores its timestamp and arms
  the task; a rising event in Armed overwrites the stored timestamp and leaves the task
  Armed; a falling event in Idle publishes nothing and leaves the task as it was.
\<close>

theorem echo_task_state_machine:
  "have_rising echo_task_init = False
   \<and> echo_task_body \<lparr>t_rising = r, have_rising = False\<rparr> \<lparr>is_rising = Some True, timestamp = t\<rparr>
       = Some (\<lparr>t_rising = t, have_rising = True\<rparr>, None)
   \<and> echo_task_body \<lparr>t_rising = r, have_rising = True\<rparr> \<lparr>is_rising = Some True, timestamp = t\<rparr>
       = Some (\<lparr>t_rising = t, have_rising = True\<rparr>, None)
   \<and> echo_task_body \<lparr>t_rising = r, have_rising = False\<rparr> \<lparr>is_rising = Some False, timestamp = t\<rparr>
       = Some (\<lparr>t_rising = r, have_rising = False\<rparr>, None)"
  by (simp add: echo_task_body_def echo_task_init_def)

lemma echo_task_body_nonneg:
  assumes "echo_task_body l evt = Some (l', Some distance)"
  shows "0 \<le> distance"
proof -
  let ?diff = "absolute_time_diff_us (t_rising l) (timestamp evt)"
  have nn: "0 \<le> (real (unat ?diff) * 0.0343) / 2.0"
    by (simp del: of_nat_unat)
  from assms have "distance = (real (unat ?diff) * 0.0343) / 2.0"
    unfolding echo_task_body_def Let_def
    by (cases "is_rising evt"; cases "the (is_rising evt)"; cases "have_rising l") simp_all
  with nn show ?thesis by (simp only:)
qed

lemma xQueueSend_set:
  "set (pcItems (snd (xQueueSend q x))) \<subseteq> insert x (set (pcItems q))"
  by (auto simp: xQueueSend_def)

text \<open>
  Every distance in the result queue is non-negative: the queue starts empty and
  \<open>echo_task\<close>, its only producer, publishes non-negative values only.
\<close>

lemma main_init_nonneg:
  "\<forall>d \<in> set (pcItems (xQueueDistance main_init)). 0 \<le> d"
  by (simp add: main_init_def xQueueCreate_def)

lemma echo_task_iter_nonneg:
  assumes "echo_task_iter (l, g) = Some (l', g')"
    and "\<forall>d \<in> set (pcItems (xQueueDistance g)). 0 \<le> d"
  shows "\<forall>d \<in> set (pcItems (xQueueDistance g')). 0 \<le> d"
proof (cases "pcItems (xQueueTime g)")
  case Nil
  with assms show ?thesis by (simp add: echo_task_iter_def xQueueReceive_def)
next
  case (Cons evt r)
  from assms(1) Cons obtain l1 out where body: "echo_task_body l evt = Some (l1, out)"
    by (auto simp: echo_task_iter_def xQueueReceive_def split: option.splits)
  show ?thesis
  proof (cases out)
    case None
    with assms Cons body show ?thesis
      by (auto simp: echo_task_iter_def xQueueReceive_def)
  next
    case (Some distance)
    with body have nn: "0 \<le> distance" by (auto dest: echo_task_body_nonneg)
    from assms(1) Cons body Some
    have "xQueueDistance g' = snd (xQueueSend (xQueueDistance g) distance)"
      by (auto simp: echo_task_iter_def xQueueReceive_def)
    with xQueueSend_set [of "xQueueDistance g" distance] assms(2) nn show ?thesis
      by auto
  qed
qed

subsection \<open>The interrupt handler\<close>

text \<open>
  C10: the handler calls \<open>xQueueSendFromISR\<close> on every invocation, whatever the event
  mask, and the queue gains the event whenever it has room. The polarity of the event is
  rising when the mask has the rising bit (also when it has the falling bit too), falling
  when it has the falling bit only, and indeterminate (\<open>None\<close>) when it has neither.
\<close>

theorem echo_pin_callback_pushes_event:
  "echo_pin_callback now gpio events g =
     g\<lparr>xQueueTime := snd (xQueueSendFromISR (xQueueTime g)
        \<lparr>is_rising = (if events AND GPIO_IRQ_EDGE_RISE \<noteq> 0 then Some True
                        else if events AND GPIO_IRQ_EDGE_FALL \<noteq> 0 then Some False else None),
          timestamp = now\<rparr>)\<rparr>
   \<and> (length (pcItems (xQueueTime g)) < uxLength (xQueueTime g) \<longrightarrow>
        pcItems (xQueueTime (echo_pin_callback now gpio events g)) =
          pcItems (xQueueTime g) @
          [\<lparr>is_rising = (if events AND GPIO_IRQ_EDGE_RISE \<noteq> 0 then Some True
                          else if events AND GPIO_IRQ_EDGE_FALL \<noteq> 0 then Some False else None),
            timestamp = now\<rparr>])"
  by (simp add: echo_pin_callback_def xQueueSendFromISR_def xQueueSend_def Let_def)

text \<open>
  C10 at two masks on the empty queue of \<open>main\<close>: 12 has both edge bits and gives a
  rising event; 0 has neither and gives an event of indeterminate polarity.
\<close>

theorem echo_pin_callback_pushes_event_witness:
  "pcItems (xQueueTime (echo_pin_callback 77 ECHO_PIN 12 main_init))
     = [\<lparr>is_rising = Some True, timestamp = 77\<rparr>]
   \<and> pcItems (xQueueTime (echo_pin_callback 77 ECHO_PIN 0 main_init))
     = [\<lparr>is_rising = None, timestamp = 77\<rparr>]"
proof -
  have room: "length (pcItems (xQueueTime main_init)) < uxLength (xQueueTime main_init)"
    by (simp add: main_init_def xQueueCreate_def)
  have e: "pcItems (xQueueTime main_init) = []"
    by (simp add: main_init_def xQueueCreate_def)
  have both: "pcItems (xQueueTime (echo_pin_callback 77 ECHO_PIN 12 main_init)) =
      pcItems (xQueueTime main_init) @
      [\<lparr>is_rising =
          (if 12 AND GPIO_IRQ_EDGE_RISE \<noteq> 0 then Some True
           else if 12 AND GPIO_IRQ_EDGE_FALL \<noteq> 0 then Some False else None),
        timestamp = 77\<rparr>]"
    using echo_pin_callback_pushes_event [of 77 ECHO_PIN 12 main_init] room
    by blast
  have neither: "pcItems (xQueueTime (echo_pin_callback 77 ECHO_PIN 0 main_init)) =
      pcItems (xQueueTime main_init) @
      [\<lparr>is_rising =
          (if 0 AND GPIO_IRQ_EDGE_RISE \<noteq> 0 then Some True
           else if 0 AND GPIO_IRQ_EDGE_FALL \<noteq> 0 then Some False else None),
        timestamp = 77\<rparr>]"
    using echo_pin_callback_pushes_event [of 77 ECHO_PIN 0 main_init] room
    by blast
  from both neither show ?thesis
    by (simp add: e GPIO_IRQ_EDGE_RISE_def GPIO_IRQ_EDGE_FALL_def)
qed

subsection \<open>The trigger task\<close>

lemma pdMS_TO_TICKS_second:
  assumes "hz < 4294967"
  shows "pdMS_TO_TICKS hz 1000 = hz"
proof -
  from assms have "1000 * hz < 2 ^ 32" by simp
  then show ?thesis by (simp add: pdMS_TO_TICKS_def)
qed

text \<open>
  C1, on the code at a tick rate of 1000 Hz (one tick is one millisecond, the smallest
  delay the scheduler gives): one pass of the loop raises the pin, delays 1000 ticks,
  lowers the pin, gives the semaphore and delays 1000 ticks again. The pin is high for
  1000 ticks, a full second and not one tick, and a pass takes 2000 ticks, two seconds
  and not one. Each pass has one pulse and one give, in the order the claim states.
\<close>

theorem trigger_task_pulse_is_one_second:
  "fst (trigger_task_iter 1000 g) =
     [Gpio_put TRIG_PIN True, VTaskDelay 1000, Gpio_put TRIG_PIN False, XSemaphoreGive,
      VTaskDelay 1000]
   \<and> pdMS_TO_TICKS 1000 1 = 1
   \<and> high_ticks False (fst (trigger_task_iter 1000 g)) = 1000
   \<and> total_ticks (fst (trigger_task_iter 1000 g)) = 2000"
  by (simp add: trigger_task_iter_def pdMS_TO_TICKS_def)

lemma trigger_task_iter_idem:
  assumes "uxLength (xSemaphoreTrigger g) = 1"
  shows "snd (trigger_task_iter hz (snd (trigger_task_iter hz g))) = snd (trigger_task_iter hz g)"
  using assms by (simp add: trigger_task_iter_def xSemaphoreGive_def xQueueSend_def)

lemma trigger_task_iter_funpow:
  assumes "uxLength (xSemaphoreTrigger g) = 1"
  shows "((\<lambda>g. snd (trigger_task_iter hz g)) ^^ Suc n) g = snd (trigger_task_iter hz g)"
proof (induction n)
  case 0
  show ?case by simp
next
  case (Suc n)
  have "((\<lambda>g. snd (trigger_task_iter hz g)) ^^ Suc (Suc n)) g
      = snd (trigger_task_iter hz (((\<lambda>g. snd (trigger_task_iter hz g)) ^^ Suc n) g))"
    by simp
  also have "\<dots> = snd (trigger_task_iter hz (snd (trigger_task_iter hz g)))"
    by (simp only: Suc.IH)
  also have "\<dots> = snd (trigger_task_iter hz g)"
    by (rule trigger_task_iter_idem [OF assms])
  finally show ?case .
qed

text \<open>
  C8: the semaphore is binary (length one, as \<open>xSemaphoreCreateBinary\<close> makes it, holding
  at most one token). Any number \<open>n > 0\<close> of passes of the trigger task with no take in
  between leaves the shared objects exactly as one pass does: the semaphore holds one
  token, and one take empties it.
\<close>

theorem trigger_handshake_coalesces:
  assumes "uxLength (xSemaphoreTrigger g) = 1"
    and "length (pcItems (xSemaphoreTrigger g)) \<le> 1"
    and "0 < n"
  shows "((\<lambda>g. snd (trigger_task_iter hz g)) ^^ n) g = snd (trigger_task_iter hz g)
       \<and> pcItems (xSemaphoreTrigger (((\<lambda>g. snd (trigger_task_iter hz g)) ^^ n) g)) = [()]
       \<and> xSemaphoreTake (xSemaphoreTrigger (((\<lambda>g. snd (trigger_task_iter hz g)) ^^ n) g))
           = (True, (xSemaphoreTrigger g)\<lparr>pcItems := []\<rparr>)"
proof -
  from assms(3) obtain m where n: "n = Suc m" by (cases n) auto
  have eq: "((\<lambda>g. snd (trigger_task_iter hz g)) ^^ n) g = snd (trigger_task_iter hz g)"
    unfolding n by (rule trigger_task_iter_funpow [OF assms(1)])
  have items: "pcItems (xSemaphoreTrigger g) = [] \<or> pcItems (xSemaphoreTrigger g) = [()]"
    using assms(2) by (cases "pcItems (xSemaphoreTrigger g)") auto
  have one: "pcItems (xSemaphoreTrigger (snd (trigger_task_iter hz g))) = [()]"
    using assms(1) items by (auto simp add: trigger_task_iter_def xSemaphoreGive_def xQueueSend_def)
  have take: "xSemaphoreTake (xSemaphoreTrigger (snd (trigger_task_iter hz g)))
      = (True, (xSemaphoreTrigger g)\<lparr>pcItems := []\<rparr>)"
    using assms(1) items
    by (auto simp add: trigger_task_iter_def xSemaphoreGive_def xQueueSend_def
        xSemaphoreTake_def xQueueReceive_def)
  show ?thesis by (simp only: eq one take)
qed

text \<open>C8 on the objects of \<open>main\<close>: three passes with no take are one pass.\<close>

theorem trigger_handshake_coalesces_witness:
  "((\<lambda>g. snd (trigger_task_iter 1000 g)) ^^ 3) main_init = snd (trigger_task_iter 1000 main_init)
   \<and> pcItems (xSemaphoreTrigger (((\<lambda>g. snd (trigger_task_iter 1000 g)) ^^ 3) main_init)) = [()]"
proof -
  have a: "uxLength (xSemaphoreTrigger main_init) = 1"
    by (simp add: main_init_def xSemaphoreCreateBinary_def xQueueCreate_def)
  have b: "length (pcItems (xSemaphoreTrigger main_init)) \<le> 1"
    by (simp add: main_init_def xSemaphoreCreateBinary_def xQueueCreate_def)
  have c: "0 < (3::nat)" by simp
  from trigger_handshake_coalesces [OF a b c, of 1000] show ?thesis by blast
qed

subsection \<open>The display task\<close>

lemma trunc_real_le: "d \<le> 400 \<Longrightarrow> trunc_real d \<le> 400"
  by (auto simp: trunc_real_def floor_le_iff ceiling_le_iff)

lemma trunc_real_ge:
  assumes "- 2147483649 < d"
  shows "- 2147483648 \<le> trunc_real d"
proof (cases "0 \<le> d")
  case True
  then have "0 \<le> \<lfloor>d\<rfloor>" by simp
  with True show ?thesis by (simp add: trunc_real_def)
next
  case False
  from assms have "- 2147483649 < \<lceil>d\<rceil>" by (simp add: less_ceiling_iff)
  with False show ?thesis by (simp add: trunc_real_def)
qed

lemma double_to_int_defined:
  assumes "distance \<le> 400" and "- 2147483649 < distance"
  shows "double_to_int distance = Some (trunc_real distance)"
  using trunc_real_le [OF assms(1)] trunc_real_ge [OF assms(2)]
  by (simp add: double_to_int_def)

lemma double_to_int_undefined:
  assumes "distance \<le> - 2147483649"
  shows "double_to_int distance = None"
proof -
  from assms have "\<lceil>distance\<rceil> \<le> - 2147483649" by (simp add: ceiling_le_iff)
  with assms show ?thesis by (simp add: double_to_int_def trunc_real_def)
qed

lemma oled_render_cases:
  "oled_render received =
     (case received of
        None \<Rightarrow> Some [Gfx_clear_buffer, Gfx_draw_string 0 0 1 (Literal ''Sensor Falhou!''), Gfx_show]
      | Some distance \<Rightarrow>
          if distance > 400
          then Some [Gfx_clear_buffer,
                     Gfx_draw_string 0 0 1 (Literal ''Falha ao medir Distancia''), Gfx_show]
          else if - 2147483649 < distance
          then Some [Gfx_clear_buffer, Gfx_draw_string 0 0 1 (Snprintf_dist distance),
                     Gfx_draw_line 0 16 (clamp_bar (trunc_real distance)) 16, Gfx_show]
          else None)"
proof (cases received)
  case None
  then show ?thesis by (simp add: oled_render_def)
next
  case (Some d)
  consider "d > 400" | "d \<le> 400" "- 2147483649 < d" | "d \<le> - 2147483649"
    by linarith
  then show ?thesis
  proof cases
    case 1
    with Some show ?thesis by (simp add: oled_render_def)
  next
    case 2
    with Some double_to_int_defined [OF 2] show ?thesis by (simp add: oled_render_def)
  next
    case 3
    with Some double_to_int_undefined [OF 3] show ?thesis by (simp add: oled_render_def)
  qed
qed

lemma oled_task_iter_taken:
  assumes "pcItems (xSemaphoreTrigger g) = [()]"
  shows "oled_task_iter g =
     map_option (\<lambda>calls. (calls, g\<lparr>xSemaphoreTrigger := (xSemaphoreTrigger g)\<lparr>pcItems := []\<rparr>,
                                  xQueueDistance := snd (xQueueReceive (xQueueDistance g))\<rparr>))
       (oled_render (fst (xQueueReceive (xQueueDistance g))))"
  using assms
  by (simp add: oled_task_iter_def xSemaphoreTake_def xQueueReceive_def
      split: list.splits option.splits prod.splits)

text \<open>
  C2, on the code at \<open>distance = 399.9\<close>: the sample is a valid reading
  (\<open>399.9 \<le> 400\<close>) and the bar is drawn to \<open>x = 399\<close>, beyond the 128 pixels of the
  display. The clamp compares the bar with 400, not with the width.
\<close>

theorem oled_bar_exceeds_display_width:
  "oled_render (Some 399.9) =
     Some [Gfx_clear_buffer, Gfx_draw_string 0 0 1 (Snprintf_dist 399.9),
           Gfx_draw_line 0 16 399 16, Gfx_show]
   \<and> (399.9 :: real) \<le> 400 \<and> 399 > disp_width"
  by (simp add: oled_render_def double_to_int_def trunc_real_def clamp_bar_def disp_width_def)

text \<open>
  C9: in the valid-reading branch (\<open>distance \<le> 400\<close>, and above the least \<open>int\<close> so
  that the cast is defined) the bar is drawn to the truncation of the distance: the
  truncation is never above 400, so the clamp leaves it as it is.
\<close>

theorem oled_bar_is_truncation:
  assumes "distance \<le> 400" and "- 2147483649 < distance"
  shows "oled_render (Some distance) =
     Some [Gfx_clear_buffer, Gfx_draw_string 0 0 1 (Snprintf_dist distance),
           Gfx_draw_line 0 16 (trunc_real distance) 16, Gfx_show]
     \<and> \<not> trunc_real distance > 400
     \<and> clamp_bar (trunc_real distance) = trunc_real distance"
  using assms trunc_real_le [OF assms(1)] double_to_int_defined [OF assms]
  by (simp add: oled_render_def clamp_bar_def)

text \<open>C9 at \<open>distance = 57.3\<close>: the bar ends at 57.\<close>

theorem oled_bar_is_truncation_witness:
  "oled_render (Some 57.3) =
     Some [Gfx_clear_buffer, Gfx_draw_string 0 0 1 (Snprintf_dist 57.3),
           Gfx_draw_line 0 16 57 16, Gfx_show]"
proof -
  have t: "trunc_real 57.3 = 57" by (simp add: trunc_real_def)
  have "(57.3 :: real) \<le> 400" and "- 2147483649 < (57.3 :: real)" by simp_all
  from oled_bar_is_truncation [OF this] show ?thesis by (simp only: t)
qed

text \<open>
  C5: a pass of the display task that takes the semaphore draws one of three screens,
  decided by the result queue alone: the timeout screen (\<open>Sensor Falhou!\<close>) when the queue
  is empty at the end of the wait, the out-of-range screen when the oldest sample is
  above 400, and the valid reading (text and bar) for any other sample. The out-of-range
  screen differs from the timeout screen. Samples are non-negative, as every sample of
  the echo task is.
\<close>

theorem oled_task_three_outcomes:
  assumes "pcItems (xSemaphoreTrigger g) = [()]"
    and "\<forall>d \<in> set (pcItems (xQueueDistance g)). 0 \<le> d"
  shows "map_option fst (oled_task_iter g) =
     Some (case pcItems (xQueueDistance g) of
        [] \<Rightarrow> [Gfx_clear_buffer, Gfx_draw_string 0 0 1 (Literal ''Sensor Falhou!''), Gfx_show]
      | distance # rest \<Rightarrow>
          if distance > 400
          then [Gfx_clear_buffer,
                Gfx_draw_string 0 0 1 (Literal ''Falha ao medir Distancia''), Gfx_show]
          else [Gfx_clear_buffer, Gfx_draw_string 0 0 1 (Snprintf_dist distance),
                Gfx_draw_line 0 16 (clamp_bar (trunc_real distance)) 16, Gfx_show])
     \<and> [Gfx_clear_buffer, Gfx_draw_string 0 0 1 (Literal ''Falha ao medir Distancia''), Gfx_show]
       \<noteq> [Gfx_clear_buffer, Gfx_draw_string 0 0 1 (Literal ''Sensor Falhou!''), Gfx_show]"
proof (cases "pcItems (xQueueDistance g)")
  case Nil
  then show ?thesis
    by (simp add: oled_task_iter_taken [OF assms(1)] oled_render_cases xQueueReceive_def)
next
  case (Cons d r)
  with assms(2) have "0 \<le> d" by simp
  then have "- 2147483649 < d" by simp
  with Cons show ?thesis
    by (simp add: oled_task_iter_taken [OF assms(1)] oled_render_cases xQueueReceive_def)
qed

text \<open>C5 with a sample of 450 in the queue and the semaphore given: out of range.\<close>

theorem oled_task_three_outcomes_witness:
  "map_option fst (oled_task_iter
      (snd (trigger_task_iter 1000
         (main_init\<lparr>xQueueDistance := snd (xQueueSend (xQueueDistance main_init) 450)\<rparr>))))
   = Some [Gfx_clear_buffer,
           Gfx_draw_string 0 0 1 (Literal ''Falha ao medir Distancia''), Gfx_show]"
proof -
  let ?g = "snd (trigger_task_iter 1000
         (main_init\<lparr>xQueueDistance := snd (xQueueSend (xQueueDistance main_init) 450)\<rparr>))"
  have q: "pcItems (xQueueDistance ?g) = [450]"
    by (simp add: trigger_task_iter_def main_init_def xQueueCreate_def xQueueSend_def)
  have sem: "pcItems (xSemaphoreTrigger ?g) = [()]"
    by (simp add: trigger_task_iter_def main_init_def xQueueCreate_def xQueueSend_def
        xSemaphoreCreateBinary_def xSemaphoreGive_def)
  have inv: "\<forall>d \<in> set (pcItems (xQueueDistance ?g)). 0 \<le> d"
    by (simp add: q)
  from oled_task_three_outcomes [OF sem inv] show ?thesis
    by (simp add: q)
qed

text \<open>
  C7, as stated, fails. In \<open>stale_sample_scenario\<close> the first cycle times out and draws
  \<open>Sensor Falhou!\<close>; its echo comes late. In the second cycle no edge follows the
  handshake, and the display task draws the late sample of the first cycle (25.0047 cm,
  bar to 25) instead of the timeout screen.
\<close>

theorem oled_task_renders_stale_sample:
  "stale_sample_scenario =
     Some ([Gfx_clear_buffer, Gfx_draw_string 0 0 1 (Literal ''Sensor Falhou!''), Gfx_show],
           [Gfx_clear_buffer, Gfx_draw_string 0 0 1 (Snprintf_dist 25.0047),
            Gfx_draw_line 0 16 25 16, Gfx_show])"
  by (simp add: stale_sample_scenario_def trigger_task_iter_def main_init_def xQueueCreate_def
      xSemaphoreCreateBinary_def xSemaphoreGive_def xQueueSend_def oled_task_iter_def
      xSemaphoreTake_def xQueueReceive_def oled_render_def echo_pin_callback_def
      xQueueSendFromISR_def GPIO_IRQ_EDGE_RISE_def GPIO_IRQ_EDGE_FALL_def echo_task_iter_def
      echo_task_body_def echo_task_init_def absolute_time_diff_us_def double_to_int_def
      trunc_real_def clamp_bar_def Let_def)

text \<open>
  C7, amended: a pass of the display task that takes the semaphore draws the timeout
  screen when the result queue is empty at the end of the 50 ms wait, that is, when no
  sample was left from an earlier cycle and none arrived; it draws that screen once, and
  the next pass draws nothing until the semaphore is given again. When the queue holds a
  sample, whichever cycle it comes from, the pass removes the oldest one and draws it,
  and what it draws is never the timeout screen.
\<close>

theorem oled_task_timeout_iff_queue_empty:
  assumes "pcItems (xSemaphoreTrigger g) = [()]"
  shows "oled_task_iter g =
     (case pcItems (xQueueDistance g) of
        [] \<Rightarrow>
          Some ([Gfx_clear_buffer, Gfx_draw_string 0 0 1 (Literal ''Sensor Falhou!''), Gfx_show],
                g\<lparr>xSemaphoreTrigger := (xSemaphoreTrigger g)\<lparr>pcItems := []\<rparr>\<rparr>)
      | d # r \<Rightarrow>
          map_option
            (\<lambda>calls. (calls, g\<lparr>xSemaphoreTrigger := (xSemaphoreTrigger g)\<lparr>pcItems := []\<rparr>,
                                xQueueDistance := (xQueueDistance g)\<lparr>pcItems := r\<rparr>\<rparr>))
            (oled_render (Some d)))
     \<and> oled_task_iter (g\<lparr>xSemaphoreTrigger := (xSemaphoreTrigger g)\<lparr>pcItems := []\<rparr>\<rparr>)
         = Some ([], g\<lparr>xSemaphoreTrigger := (xSemaphoreTrigger g)\<lparr>pcItems := []\<rparr>\<rparr>)
     \<and> oled_render (Some d')
         \<noteq> Some [Gfx_clear_buffer, Gfx_draw_string 0 0 1 (Literal ''Sensor Falhou!''), Gfx_show]"
proof -
  have a: "oled_task_iter (g\<lparr>xSemaphoreTrigger := (xSemaphoreTrigger g)\<lparr>pcItems := []\<rparr>\<rparr>)
         = Some ([], g\<lparr>xSemaphoreTrigger := (xSemaphoreTrigger g)\<lparr>pcItems := []\<rparr>\<rparr>)"
    by (simp add: oled_task_iter_def xSemaphoreTake_def xQueueReceive_def)
  have b: "oled_render (Some d')
         \<noteq> Some [Gfx_clear_buffer, Gfx_draw_string 0 0 1 (Literal ''Sensor Falhou!''), Gfx_show]"
    by (simp add: oled_render_cases)
  show ?thesis
  proof (cases "pcItems (xQueueDistance g)")
    case Nil
    with a b show ?thesis
      by (simp add: oled_task_iter_taken [OF assms] xQueueReceive_def oled_render_def)
  next
    case (Cons d r)
    with a b show ?thesis
      by (simp add: oled_task_iter_taken [OF assms] xQueueReceive_def)
  qed
qed

text \<open>
  C7 amended, on the objects of \<open>main\<close> after one handshake and with no sample: the
  timeout screen once, then nothing.
\<close>

theorem oled_task_timeout_iff_queue_empty_witness:
  "oled_task_iter (snd (trigger_task_iter 1000 main_init))
     = Some ([Gfx_clear_buffer, Gfx_draw_string 0 0 1 (Literal ''Sensor Falhou!''), Gfx_show],
             main_init)
   \<and> oled_task_iter main_init = Some ([], main_init)"
proof -
  let ?g = "snd (trigger_task_iter 1000 main_init)"
  have sem: "pcItems (xSemaphoreTrigger ?g) = [()]"
    by (simp add: trigger_task_iter_def main_init_def xQueueCreate_def xQueueSend_def
        xSemaphoreCreateBinary_def xSemaphoreGive_def)
  have q: "pcItems (xQueueDistance ?g) = []"
    by (simp add: trigger_task_iter_def main_init_def xQueueCreate_def)
  have restored: "?g\<lparr>xSemaphoreTrigger := (xSemaphoreTrigger ?g)\<lparr>pcItems := []\<rparr>\<rparr> = main_init"
    by (simp add: trigger_task_iter_def main_init_def xQueueCreate_def xQueueSend_def
        xSemaphoreCreateBinary_def xSemaphoreGive_def)
  from oled_task_timeout_iff_queue_empty [OF sem] show ?thesis
    by (simp add: q restored)
qed

end
